theory Spec2Isabelle
  imports Complex_Main "HOL-Library.Char_ord" "HOL-Library.List_Lexorder"
begin

section \<open>Strings\<close>

text \<open>
  A Python \<open>str\<close> is modelled by the \<open>string\<close> of its UTF-8 encoding: the characters
  below 128 are the ASCII characters, every other character is part of the encoding of
  a code point outside ASCII. Equality and the order of strings are those of Python.
  \<open>s.encode('ascii', 'ignore').decode('ascii')\<close> drops everything outside ASCII.
\<close>

definition is_ascii :: "char \<Rightarrow> bool" where
  "is_ascii c = (of_char c < (128::nat))"

definition ascii_ignore :: "string \<Rightarrow> string" where
  "ascii_ignore s = filter is_ascii s"

definition ascii_lower :: "char \<Rightarrow> char" where
  "ascii_lower c =
     (if (65::nat) \<le> of_char c \<and> of_char c \<le> (90::nat)
      then char_of (of_char c + (32::nat)) else c)"

text \<open>
  \<open>str.lower()\<close>: on a string of ASCII characters it maps \<open>A..Z\<close> to \<open>a..z\<close>. What it
  does to a string with other code points is the Unicode table of the interpreter, taken
  as the parameter \<open>ulower\<close>.
\<close>

definition str_lower :: "(string \<Rightarrow> string) \<Rightarrow> string \<Rightarrow> string" where
  "str_lower ulower s = (if list_all is_ascii s then map ascii_lower s else ulower s)"

section \<open>Log records\<close>

text \<open>
  One line of the log, with the four columns of the header
  \<open>timestamp,idle_seconds,app_name,window_title\<close>. A timestamp is the number of
  nanoseconds of a naive local date-time, the way pandas keeps a \<open>datetime64[ns]\<close>; day
  \<open>d\<close> is the interval from \<open>d * ns_per_day\<close> up to \<open>(d + 1) * ns_per_day\<close>.
\<close>

record log_record =
  timestamp :: int
  idle_seconds :: int
  app_name :: string
  window_title :: string

definition ns_per_day :: int where
  "ns_per_day = 86400 * 1000000000"

definition date_of :: "int \<Rightarrow> int" where
  "date_of ts = ts div ns_per_day"

definition midnight :: "int \<Rightarrow> int" where
  "midnight d = d * ns_per_day"

section \<open>The samplers\<close>

text \<open>What the platform probes return on one tick.\<close>

record probe =
  idle_time :: int
  screen_locked :: bool
  foreground_app :: "string \<times> string"

definition IDLE_THRESHOLD :: int where
  "IDLE_THRESHOLD = 300"

subsection \<open>\<open>screentime_tracker.py\<close>: one record on every tick\<close>

text \<open>
  The body of the loop of \<open>log_activity\<close>: the record written on a tick at local time
  \<open>now\<close>.
\<close>

definition log_activity_row :: "int \<Rightarrow> probe \<Rightarrow> log_record" where
  "log_activity_row now p =
     (let active = (idle_time p < IDLE_THRESHOLD \<and> \<not> screen_locked p);
          app = (if active then foreground_app p else (''Idle'', ''System Idle''))
      in \<lparr>timestamp = now, idle_seconds = idle_time p,
          app_name = fst app, window_title = ascii_ignore (snd app)\<rparr>)"

text \<open>The loop appends one record per tick.\<close>

fun log_activity :: "log_record list \<Rightarrow> (int \<times> probe) list \<Rightarrow> log_record list" where
  "log_activity csv [] = csv"
| "log_activity csv ((now, p) # ticks) = log_activity (csv @ [log_activity_row now p]) ticks"

subsection \<open>\<open>Mac/screentime_tracker.py\<close>, \<open>screentime_standalone.py\<close>: write on change\<close>

text \<open>
  One tick of the loop reads the local time, the probes, \<open>time.time()\<close> for the write
  test and once more for the duration test; \<open>write_ok\<close> tells whether appending to the
  file went through (an exception there is caught and reported).
\<close>

record tick =
  now :: int
  probes :: probe
  clock :: rat
  write_ok :: bool
  clock_end :: rat

record sampler =
  last_app :: string
  last_window :: string
  csv_rows :: "log_record list"

definition tick_row :: "int \<Rightarrow> probe \<Rightarrow> log_record" where
  "tick_row current_time p =
     (if screen_locked p
      then \<lparr>timestamp = current_time, idle_seconds = 0,
            app_name = ''Screen Locked'', window_title = ''Screen Saver''\<rparr>
      else \<lparr>timestamp = current_time, idle_seconds = idle_time p,
            app_name = fst (foreground_app p), window_title = snd (foreground_app p)\<rparr>)"

text \<open>\<open>x % m\<close> on floats, for a positive \<open>m\<close>.\<close>

definition py_fmod :: "rat \<Rightarrow> rat \<Rightarrow> rat" where
  "py_fmod x m = x - m * of_int \<lfloor>x / m\<rfloor>"

definition should_write :: "sampler \<Rightarrow> log_record \<Rightarrow> rat \<Rightarrow> bool" where
  "should_write s r t =
     (app_name r \<noteq> last_app s \<or> window_title r \<noteq> last_window s \<or> py_fmod t 30 < 1)"

definition sampler_tick :: "sampler \<Rightarrow> tick \<Rightarrow> sampler" where
  "sampler_tick s t =
     (let r = tick_row (now t) (probes t)
      in if should_write s r (clock t) \<and> write_ok t
         then \<lparr>last_app = app_name r, last_window = window_title r,
               csv_rows = csv_rows s @ [r]\<rparr>
         else s)"

definition duration_reached :: "rat option \<Rightarrow> rat \<Rightarrow> rat \<Rightarrow> bool" where
  "duration_reached duration_minutes start_time t =
     (case duration_minutes of
        None \<Rightarrow> False
      | Some d \<Rightarrow> d \<noteq> 0 \<and> t - start_time \<ge> d * 60)"

fun sampler_loop :: "rat option \<Rightarrow> rat \<Rightarrow> sampler \<Rightarrow> tick list \<Rightarrow> sampler" where
  "sampler_loop duration_minutes start_time s [] = s"
| "sampler_loop duration_minutes start_time s (t # ticks) =
     (let s' = sampler_tick s t
      in if duration_reached duration_minutes start_time (clock_end t) then s'
         else sampler_loop duration_minutes start_time s' ticks)"

definition sampler_start :: "log_record list \<Rightarrow> sampler" where
  "sampler_start csv = \<lparr>last_app = '''', last_window = '''', csv_rows = csv\<rparr>"

section \<open>\<open>screentime_cli.py\<close>: reading the log\<close>

text \<open>
  \<open>pd.read_csv(LOG_FILE, encoding=e)\<close> decodes the bytes of the file and parses the text.
  Decoding with \<open>latin-1\<close> maps every byte to the code point of the same number; the
  other three decoders, the CSV parser and \<open>pd.to_datetime\<close> belong to the libraries and
  are parameters. A decoder that returns \<open>None\<close> raises \<open>UnicodeDecodeError\<close>; the parser
  and \<open>to_datetime\<close> returning \<open>None\<close> raise some other exception. \<open>to_datetime\<close> is
  called once, on the whole column.
\<close>

datatype encoding = Utf8 | Latin1 | Cp1252 | Utf8Sig

text \<open>
  A row as the parser reads it. A field of \<open>app_name\<close> or \<open>window_title\<close> that is empty
  (or one of the parser's markers of a missing value) is read as NaN, here \<open>None\<close>.
\<close>

record csv_row =
  csv_timestamp :: string
  csv_idle_seconds :: int
  csv_app_name :: "string option"
  csv_window_title :: "string option"

text \<open>
  What the parser hands back: a frame with the columns of the log (\<open>idle_seconds\<close>
  numeric), or a frame on which \<open>df['timestamp']\<close> or \<open>df['idle_seconds'] < 300\<close> raises
  (a column is missing, or \<open>idle_seconds\<close> is not numeric).
\<close>

datatype csv_frame = LogFrame "csv_row list" | ForeignFrame

record reader =
  codec :: "encoding \<Rightarrow> string \<Rightarrow> string option"
  parse_csv :: "string \<Rightarrow> csv_frame option"
  to_datetime :: "string list \<Rightarrow> int list option"

definition latin1_char :: "char \<Rightarrow> string" where
  "latin1_char b =
     (if is_ascii b then [b]
      else [char_of ((192::nat) + of_char b div 64), char_of ((128::nat) + of_char b mod 64)])"

definition decode_latin1 :: "string \<Rightarrow> string" where
  "decode_latin1 bytes = concat (map latin1_char bytes)"

definition decode :: "reader \<Rightarrow> encoding \<Rightarrow> string \<Rightarrow> string option" where
  "decode rd e bytes = (if e = Latin1 then Some (decode_latin1 bytes) else codec rd e bytes)"

datatype read_result = UnicodeDecodeError | OtherException | Parsed csv_frame

definition read_csv :: "reader \<Rightarrow> encoding \<Rightarrow> string \<Rightarrow> read_result" where
  "read_csv rd e bytes =
     (case decode rd e bytes of
        None \<Rightarrow> UnicodeDecodeError
      | Some text \<Rightarrow>
          (case parse_csv rd text of None \<Rightarrow> OtherException | Some f \<Rightarrow> Parsed f))"

definition encodings :: "encoding list" where
  "encodings = [Utf8, Latin1, Cp1252, Utf8Sig]"

text \<open>
  The \<open>for encoding in encodings\<close> loop: \<open>None\<close> when it ends with \<open>df is None\<close>,
  otherwise what the first attempt that did not raise \<open>UnicodeDecodeError\<close> gave.
\<close>

fun try_encodings :: "reader \<Rightarrow> encoding list \<Rightarrow> string \<Rightarrow> read_result option" where
  "try_encodings rd [] bytes = None"
| "try_encodings rd (e # es) bytes =
     (case read_csv rd e bytes of
        UnicodeDecodeError \<Rightarrow> try_encodings rd es bytes
      | r \<Rightarrow> Some r)"

text \<open>
  A row of the data frame after \<open>load_data\<close>: the timestamp converted, the other columns
  as read, and the column \<open>active\<close>.
\<close>

record df_row =
  df_timestamp :: int
  df_idle_seconds :: int
  df_app_name :: "string option"
  df_window_title :: "string option"
  active :: bool

definition df_of :: "int \<Rightarrow> csv_row \<Rightarrow> df_row" where
  "df_of ts r =
     \<lparr>df_timestamp = ts, df_idle_seconds = csv_idle_seconds r,
      df_app_name = csv_app_name r, df_window_title = csv_window_title r,
      active = (csv_idle_seconds r < 300)\<rparr>"

text \<open>
  \<open>df['timestamp'] = pd.to_datetime(df['timestamp'])\<close> and
  \<open>df['active'] = df['idle_seconds'] < 300\<close>; the library returns one timestamp per row.
\<close>

definition convert_frame :: "reader \<Rightarrow> csv_row list \<Rightarrow> df_row list option" where
  "convert_frame rd rows =
     (case to_datetime rd (map csv_timestamp rows) of
        None \<Rightarrow> None
      | Some tss \<Rightarrow> Some (map2 df_of tss rows))"

text \<open>
  \<open>load_data\<close> returns the frame, or prints one of three messages and returns \<open>None\<close>.
  The file is \<open>None\<close> when \<open>os.path.exists(LOG_FILE)\<close> is false, its bytes otherwise.
\<close>

datatype load_result = NoDataFound | EncodingIssues | ErrorLoading | Loaded "df_row list"

definition load_data :: "reader \<Rightarrow> string option \<Rightarrow> load_result" where
  "load_data rd file =
     (case file of
        None \<Rightarrow> NoDataFound
      | Some bytes \<Rightarrow>
          (case try_encodings rd encodings bytes of
             None \<Rightarrow> EncodingIssues
           | Some UnicodeDecodeError \<Rightarrow> ErrorLoading
           | Some OtherException \<Rightarrow> ErrorLoading
           | Some (Parsed ForeignFrame) \<Rightarrow> ErrorLoading
           | Some (Parsed (LogFrame rows)) \<Rightarrow>
               (case convert_frame rd rows of None \<Rightarrow> ErrorLoading | Some df \<Rightarrow> Loaded df)))"

section \<open>\<open>screentime_cli.py\<close>: the reports\<close>

text \<open>
  \<open>df[df['active']]\<close>, \<open>['active'].sum()\<close>, \<open>['app_name'].nunique()\<close> and
  \<open>groupby('app_name').size()\<close>. \<open>nunique\<close> and \<open>groupby\<close> leave NaN out; the groups come
  in ascending order of the key.
\<close>

definition active_rows :: "df_row list \<Rightarrow> df_row list" where
  "active_rows df = filter active df"

definition active_sum :: "df_row list \<Rightarrow> nat" where
  "active_sum df = length (filter active df)"

fun names :: "df_row list \<Rightarrow> string list" where
  "names [] = []"
| "names (r # rs) = (case df_app_name r of None \<Rightarrow> names rs | Some a \<Rightarrow> a # names rs)"

definition nunique :: "df_row list \<Rightarrow> nat" where
  "nunique df = length (remdups (names df))"

definition group_keys :: "df_row list \<Rightarrow> string list" where
  "group_keys df = sort (remdups (names df))"

definition group :: "df_row list \<Rightarrow> string \<Rightarrow> df_row list" where
  "group df a = filter (\<lambda>r. df_app_name r = Some a) df"

definition groupby_size :: "df_row list \<Rightarrow> (string \<times> nat) list" where
  "groupby_size df = map (\<lambda>a. (a, length (group df a))) (group_keys df)"

text \<open>
  The events of a report: the call of \<open>load_data\<close> and the messages printed. The order of
  \<open>sort_values(ascending=False)\<close> among equal values is the library's (the code names no
  sort kind, and the default one is not stable), so the sort is the parameter \<open>srt\<close>.
\<close>

datatype event =
    Calls_load_data
  | Prints_NoDataFound
  | Prints_EncodingIssues
  | Prints_ErrorLoading
  | Prints_NoActivityToday int
  | Prints_TodaySummary int nat nat "(string \<times> nat) list option"
  | Prints_InvalidDateFormat
  | Prints_Error
  | Prints_NoDataForPeriod string string
  | Prints_Analysis string string nat nat int "(string \<times> nat) list option"

definition load_events :: "load_result \<Rightarrow> event list" where
  "load_events l =
     (case l of
        NoDataFound \<Rightarrow> [Calls_load_data, Prints_NoDataFound]
      | EncodingIssues \<Rightarrow> [Calls_load_data, Prints_EncodingIssues]
      | ErrorLoading \<Rightarrow> [Calls_load_data, Prints_ErrorLoading]
      | Loaded df \<Rightarrow> [Calls_load_data])"

definition top_apps ::
  "((string \<times> nat) list \<Rightarrow> (string \<times> nat) list) \<Rightarrow> nat \<Rightarrow> df_row list \<Rightarrow>
   (string \<times> nat) list option" where
  "top_apps srt n data =
     (if list_ex active data then Some (take n (srt (groupby_size (active_rows data))))
      else None)"

definition today_summary ::
  "reader \<Rightarrow> ((string \<times> nat) list \<Rightarrow> (string \<times> nat) list) \<Rightarrow> string option \<Rightarrow> int \<Rightarrow>
   event list" where
  "today_summary rd srt file today =
     (case load_data rd file of
        Loaded df \<Rightarrow>
          (let today_data = filter (\<lambda>r. date_of (df_timestamp r) = today) df
           in if today_data = [] then [Calls_load_data, Prints_NoActivityToday today]
              else [Calls_load_data,
                    Prints_TodaySummary today (active_sum today_data)
                      (nunique (active_rows today_data))
                      (top_apps srt 5 today_data)])
      | l \<Rightarrow> load_events l)"

subsection \<open>\<open>app_usage_stats\<close>\<close>

record app_stat =
  app :: string
  usage_minutes :: nat
  last_used :: "int option"
  sessions :: nat

text \<open>
  The \<open>groupby('app_name').agg(...)\<close> over the active rows after \<open>week_ago\<close>: one row per
  app, in the order of the keys. (\<open>sort_values\<close> and \<open>head(15)\<close> then order and cut these
  rows for printing; they do not change a row.)
\<close>

fun max_list :: "int list \<Rightarrow> int option" where
  "max_list [] = None"
| "max_list (x # xs) = Some (fold max xs x)"

definition agg :: "df_row list \<Rightarrow> string \<Rightarrow> app_stat" where
  "agg df a =
     \<lparr>app = a,
      usage_minutes = active_sum (group df a),
      last_used = max_list (map df_timestamp (group df a)),
      sessions = length (map df_timestamp (group df a))\<rparr>"

definition recent_data :: "int \<Rightarrow> df_row list \<Rightarrow> df_row list" where
  "recent_data now_ts df = filter (\<lambda>r. df_timestamp r > now_ts - 7 * ns_per_day) df"

definition app_stats :: "int \<Rightarrow> df_row list \<Rightarrow> app_stat list" where
  "app_stats now_ts df =
     (let a = active_rows (recent_data now_ts df) in map (agg a) (group_keys a))"

subsection \<open>\<open>productivity_analysis\<close>\<close>

definition productive_apps :: "string list" where
  "productive_apps = [''code.exe'', ''notepad++.exe'', ''sublime_text.exe'', ''atom.exe'',
     ''pycharm64.exe'', ''devenv.exe'', ''git.exe'']"

definition social_apps :: "string list" where
  "social_apps = [''chrome.exe'', ''firefox.exe'', ''discord.exe'', ''telegram.exe'',
     ''whatsapp.exe'', ''slack.exe'']"

definition entertainment_apps :: "string list" where
  "entertainment_apps = [''spotify.exe'', ''vlc.exe'', ''netflix.exe'', ''youtube.exe'',
     ''steam.exe'', ''epicgameslauncher.exe'']"

text \<open>
  The times of \<open>productivity_analysis\<close>, computed from \<open>recent_data\<close> (the rows after
  \<open>week_ago\<close>, when there are any). A category's rows are
  \<open>active_data[active_data['app_name'].str.lower().isin([a.lower() for a in apps])]\<close>;
  \<open>.str.lower()\<close> of NaN is NaN, which is in no list.
\<close>

definition lower_name :: "(string \<Rightarrow> string) \<Rightarrow> df_row \<Rightarrow> string option" where
  "lower_name ulower r = map_option (str_lower ulower) (df_app_name r)"

definition lower_isin :: "(string \<Rightarrow> string) \<Rightarrow> string list \<Rightarrow> df_row \<Rightarrow> bool" where
  "lower_isin ulower apps r =
     (case lower_name ulower r of
        None \<Rightarrow> False
      | Some n \<Rightarrow> n \<in> set (map (str_lower ulower) apps))"

definition category_time :: "(string \<Rightarrow> string) \<Rightarrow> string list \<Rightarrow> df_row list \<Rightarrow> int" where
  "category_time ulower apps active_data =
     int (active_sum (filter (lower_isin ulower apps) active_data))"

record category_times =
  productive_time :: int
  social_time :: int
  entertainment_time :: int
  total_time :: int
  other_time :: int

definition productivity_times :: "(string \<Rightarrow> string) \<Rightarrow> df_row list \<Rightarrow> category_times" where
  "productivity_times ulower recent =
     (let active_data = active_rows recent;
          p = category_time ulower productive_apps active_data;
          s = category_time ulower social_apps active_data;
          e = category_time ulower entertainment_apps active_data;
          t = int (active_sum active_data)
      in \<lparr>productive_time = p, social_time = s, entertainment_time = e, total_time = t,
          other_time = t - p - s - e\<rparr>)"

subsection \<open>\<open>custom_date_range\<close>\<close>

text \<open>
  A \<open>datetime\<close> holds a day from 0001-01-01 to 9999-12-31; days are numbered from
  1970-01-01, as the timestamps are. \<open>datetime.strptime(s, '%Y-%m-%d')\<close> is the parameter
  \<open>strptime\<close>: the day, or \<open>None\<close> when it raises \<open>ValueError\<close>.
\<close>

definition min_day :: int where
  "min_day = - 719162"

definition max_day :: int where
  "max_day = 2932896"

typedef date = "{min_day .. max_day}"
  morphisms day_of Date
  by (rule exI[of _ 0]) (simp add: min_day_def max_day_def)

text \<open>
  \<open>d + timedelta(days=1)\<close> raises \<open>OverflowError\<close> on the last day. In \<open>custom_date_range\<close>
  a \<open>ValueError\<close> prints the message about the date format and any other exception
  prints \<open>[-] Error: ...\<close>. The analysis printed is the period, the total of active
  minutes, the number of apps, the days analysed and the top apps (the daily average
  printed with them is the total divided by the days).
\<close>

definition filtered_data :: "int \<Rightarrow> int \<Rightarrow> df_row list \<Rightarrow> df_row list" where
  "filtered_data start_dt end_dt df =
     filter (\<lambda>r. df_timestamp r \<ge> start_dt \<and> df_timestamp r < end_dt) df"

definition custom_date_range ::
  "(string \<Rightarrow> date option) \<Rightarrow> reader \<Rightarrow> ((string \<times> nat) list \<Rightarrow> (string \<times> nat) list) \<Rightarrow>
   string option \<Rightarrow> string \<Rightarrow> string \<Rightarrow> event list" where
  "custom_date_range strptime rd srt file start_date end_date =
     (case strptime start_date of
        None \<Rightarrow> [Prints_InvalidDateFormat]
      | Some d1 \<Rightarrow>
          (case strptime end_date of
             None \<Rightarrow> [Prints_InvalidDateFormat]
           | Some d2 \<Rightarrow>
               if day_of d2 = max_day then [Prints_Error]
               else
                 (let start_dt = midnight (day_of d1);
                      end_dt = midnight (day_of d2) + ns_per_day
                  in case load_data rd file of
                       Loaded df \<Rightarrow>
                         (let fd = filtered_data start_dt end_dt df
                          in if fd = []
                             then [Calls_load_data,
                                   Prints_NoDataForPeriod start_date end_date]
                             else [Calls_load_data,
                                   Prints_Analysis start_date end_date (active_sum fd)
                                     (nunique (active_rows fd))
                                     ((end_dt - start_dt) div ns_per_day)
                                     (top_apps srt 10 fd)])
                     | l \<Rightarrow> load_events l)))"

section \<open>\<open>screentime_standalone.py\<close>: the summary without pandas\<close>

text \<open>
  The rows are those of \<open>csv.DictReader\<close>, whose fields are strings.
  \<open>app_counts[app] = app_counts.get(app, 0) + 1\<close> works on a dictionary, which keeps its
  keys in the order of their first insertion.
\<close>

fun dict_incr :: "(string \<times> nat) list \<Rightarrow> string \<Rightarrow> (string \<times> nat) list" where
  "dict_incr [] a = [(a, 1)]"
| "dict_incr ((k, v) # d) a = (if k = a then (k, v + 1) # d else (k, v) # dict_incr d a)"

fun app_counts :: "(string \<times> nat) list \<Rightarrow> log_record list \<Rightarrow> (string \<times> nat) list" where
  "app_counts d [] = d"
| "app_counts d (row # rows) = app_counts (dict_incr d (app_name row)) rows"

text \<open>
  \<open>sorted(app_counts.items(), key=lambda x: x[1], reverse=True)\<close>: a stable sort, equal
  counts keep the order of the dictionary.
\<close>

definition sorted_items :: "(string \<times> nat) list \<Rightarrow> (string \<times> nat) list" where
  "sorted_items items = sort_key (\<lambda>x. - int (snd x)) items"

definition sorted_apps :: "log_record list \<Rightarrow> (string \<times> nat) list" where
  "sorted_apps active_data = take 5 (sorted_items (app_counts [] active_data))"

definition today_summary_simple :: "log_record list \<Rightarrow> int \<Rightarrow> event list" where
  "today_summary_simple data today =
     (if data = [] then [Prints_NoActivityToday today]
      else let today_data = filter (\<lambda>row. date_of (timestamp row) = today) data
           in if today_data = [] then [Prints_NoActivityToday today]
              else let active_data = filter (\<lambda>row. idle_seconds row < 300) today_data
                   in [Prints_TodaySummary today (length active_data)
                         (length (remdups (map app_name active_data)))
                         (if active_data = [] then None else Some (sorted_apps active_data))])"

section \<open>The specification's wording\<close>

text \<open>
  The sampler's case split as the specification words it: locked, else idle for 300
  seconds or more, else the foreground application.
\<close>

definition spec_tick_row :: "int \<Rightarrow> probe \<Rightarrow> log_record" where
  "spec_tick_row current_time p =
     (if screen_locked p
      then \<lparr>timestamp = current_time, idle_seconds = 0,
            app_name = ''Screen Locked'', window_title = ''Screen Saver''\<rparr>
      else if idle_time p \<ge> 300
      then \<lparr>timestamp = current_time, idle_seconds = idle_time p,
            app_name = ''Idle'', window_title = ''System Idle''\<rparr>
      else \<lparr>timestamp = current_time, idle_seconds = idle_time p,
            app_name = fst (foreground_app p), window_title = snd (foreground_app p)\<rparr>)"

text \<open>
  Sessions as the specification words them: the maximal contiguous runs of an app among
  the records in timestamp order, a run ending when the app changes or when the gap to
  the next record exceeds the sampling interval.
\<close>

fun count_runs :: "int \<Rightarrow> string \<Rightarrow> df_row option \<Rightarrow> df_row list \<Rightarrow> nat" where
  "count_runs interval a prev [] = 0"
| "count_runs interval a prev (r # rs) =
     (if df_app_name r = Some a \<and>
         (case prev of
            None \<Rightarrow> True
          | Some q \<Rightarrow> df_app_name q \<noteq> Some a \<or> df_timestamp r - df_timestamp q > interval)
      then 1 else 0) + count_runs interval a (Some r) rs"

definition spec_sessions :: "int \<Rightarrow> df_row list \<Rightarrow> string \<Rightarrow> nat" where
  "spec_sessions interval rows a = count_runs interval a None (sort_key df_timestamp rows)"

text \<open>
  Categories as the specification words them: a keyword matches an app name that
  contains it, case-insensitively, and the first category of the table with a matching
  keyword wins.
\<close>

datatype category = Productive | Social | Entertainment | Other

definition contains :: "string \<Rightarrow> string \<Rightarrow> bool" where
  "contains s k = list_ex (\<lambda>i. take (length k) (drop i s) = k) [0 ..< Suc (length s)]"

definition keyword_match :: "(string \<Rightarrow> string) \<Rightarrow> string list \<Rightarrow> string \<Rightarrow> bool" where
  "keyword_match ulower keywords name =
     list_ex (\<lambda>k. contains (str_lower ulower name) (str_lower ulower k)) keywords"

definition spec_category :: "(string \<Rightarrow> string) \<Rightarrow> string \<Rightarrow> category" where
  "spec_category ulower name =
     (if keyword_match ulower productive_apps name then Productive
      else if keyword_match ulower social_apps name then Social
      else if keyword_match ulower entertainment_apps name then Entertainment
      else Other)"

text \<open>
  The ranking as the specification words it: descending usage, and among equal usage
  ascending app name.
\<close>

definition ranked_before :: "string \<times> nat \<Rightarrow> string \<times> nat \<Rightarrow> bool" where
  "ranked_before x y = (snd y < snd x \<or> (snd y = snd x \<and> fst x < fst y))"

definition spec_ranked :: "(string \<times> nat) list \<Rightarrow> bool" where
  "spec_ranked l = sorted_wrt ranked_before l"

section \<open>Scenarios\<close>

text \<open>
  A tick of the write-on-change sampler in a steady state: the screen is not locked, the
  same application and window are in front, the clock reads \<open>t\<close> and the write succeeds.
\<close>

definition steady :: "rat \<Rightarrow> tick" where
  "steady t =
     \<lparr>now = 0,
      probes = \<lparr>idle_time = 0, screen_locked = False,
                foreground_app = (''Code.exe'', ''main.py'')\<rparr>,
      clock = t, write_ok = True, clock_end = t\<rparr>"

text \<open>A tick under lock, ten seconds after the last input, whose write succeeds.\<close>

definition locked_tick :: tick where
  "locked_tick =
     \<lparr>now = 0,
      probes = \<lparr>idle_time = 10, screen_locked = True,
                foreground_app = (''chrome.exe'', ''News'')\<rparr>,
      clock = 2, write_ok = True, clock_end = 2\<rparr>"

text \<open>Two active minutes of one application, a minute apart.\<close>

definition two_minutes :: "df_row list" where
  "two_minutes =
     [\<lparr>df_timestamp = 0, df_idle_seconds = 0, df_app_name = Some ''Code.exe'',
       df_window_title = Some ''main.py'', active = True\<rparr>,
      \<lparr>df_timestamp = 60000000000, df_idle_seconds = 0, df_app_name = Some ''Code.exe'',
       df_window_title = Some ''main.py'', active = True\<rparr>]"

text \<open>One active minute of an application whose name contains \<open>code.exe\<close>.\<close>

definition one_vscode :: "df_row list" where
  "one_vscode =
     [\<lparr>df_timestamp = 0, df_idle_seconds = 0, df_app_name = Some ''vscode.exe'',
       df_window_title = Some ''main.py'', active = True\<rparr>]"

definition one_code :: "df_row list" where
  "one_code =
     [\<lparr>df_timestamp = 0, df_idle_seconds = 0, df_app_name = Some ''Code.exe'',
       df_window_title = Some ''main.py'', active = True\<rparr>]"

text \<open>Two applications with one active minute each on day 0, \<open>zeta\<close> before \<open>alpha\<close>.\<close>

definition zeta_alpha :: "log_record list" where
  "zeta_alpha =
     [\<lparr>timestamp = 0, idle_seconds = 0, app_name = ''zeta'', window_title = ''w''\<rparr>,
      \<lparr>timestamp = 60000000000, idle_seconds = 0, app_name = ''alpha'', window_title = ''w''\<rparr>]"

definition zeta_alpha_df :: "df_row list" where
  "zeta_alpha_df =
     [\<lparr>df_timestamp = 0, df_idle_seconds = 0, df_app_name = Some ''zeta'',
       df_window_title = Some ''w'', active = True\<rparr>,
      \<lparr>df_timestamp = 60000000000, df_idle_seconds = 0, df_app_name = Some ''alpha'',
       df_window_title = Some ''w'', active = True\<rparr>]"

subsection \<open>Log files and stand-ins for the library\<close>

text \<open>
  The text of a file, from its lines. Four files: a log with the first and the last
  second of 2024-01-01 and the midnight that begins 2024-01-02; a log whose window
  title ends in the byte E9, which is not UTF-8; the log of one tick under the screen
  saver; and a CSV file that is not a log.
\<close>

definition file_of :: "string list \<Rightarrow> string" where
  "file_of ls = concat (map (\<lambda>l. l @ [CHR 0x0A]) ls)"

definition header :: string where
  "header = ''timestamp,idle_seconds,app_name,window_title''"

definition day_log :: string where
  "day_log = file_of [header,
     ''2024-01-01 00:00:00,0,Code.exe,main.py'',
     ''2024-01-01 23:59:59,0,Code.exe,main.py'',
     ''2024-01-02 00:00:00,0,Code.exe,main.py'']"

definition cafe_log :: string where
  "cafe_log = file_of [header, ''2024-01-01 00:00:00,0,Code.exe,caf'' @ [CHR 0xE9]]"

definition idle_log :: string where
  "idle_log = file_of [header, ''2024-01-01T00:00:00,10,Idle,System Idle'']"

definition foreign_csv :: string where
  "foreign_csv = file_of [''a,b'', ''1,2'']"

definition code_row :: "string \<Rightarrow> string \<Rightarrow> csv_row" where
  "code_row ts title =
     \<lparr>csv_timestamp = ts, csv_idle_seconds = 0, csv_app_name = Some ''Code.exe'',
      csv_window_title = Some title\<rparr>"

definition day_rows :: "csv_row list" where
  "day_rows =
     [code_row ''2024-01-01 00:00:00'' ''main.py'',
      code_row ''2024-01-01 23:59:59'' ''main.py'',
      code_row ''2024-01-02 00:00:00'' ''main.py'']"

definition cafe_rows :: "csv_row list" where
  "cafe_rows = [code_row ''2024-01-01 00:00:00'' (''caf'' @ [CHR 0xC3, CHR 0xA9])]"

definition idle_rows :: "csv_row list" where
  "idle_rows =
     [\<lparr>csv_timestamp = ''2024-01-01T00:00:00'', csv_idle_seconds = 10,
       csv_app_name = Some ''Idle'', csv_window_title = Some ''System Idle''\<rparr>]"

text \<open>
  The stand-in for the parser knows the texts of these four files and what the parser
  reads from each; on the text of an empty file, as on every other text, it raises. The
  stand-in for \<open>to_datetime\<close> knows the timestamps of these files, which have one format
  per file. The stand-ins for the decoders other than \<open>latin-1\<close> accept the files made of
  ASCII bytes, on which all the encodings agree.
\<close>

definition known_texts :: "(string \<times> csv_frame) list" where
  "known_texts =
     [(day_log, LogFrame day_rows),
      (decode_latin1 cafe_log, LogFrame cafe_rows),
      (idle_log, LogFrame idle_rows),
      (foreign_csv, ForeignFrame)]"

definition stamps :: "(string \<times> int) list" where
  "stamps =
     [(''2024-01-01 00:00:00'', 1704067200000000000),
      (''2024-01-01 23:59:59'', 1704153599000000000),
      (''2024-01-02 00:00:00'', 1704153600000000000),
      (''2024-01-01T00:00:00'', 1704067200000000000)]"

fun stamps_of :: "string list \<Rightarrow> int list option" where
  "stamps_of [] = Some []"
| "stamps_of (c # cs) =
     (case map_of stamps c of
        None \<Rightarrow> None
      | Some ts \<Rightarrow> (case stamps_of cs of None \<Rightarrow> None | Some tss \<Rightarrow> Some (ts # tss)))"

definition std_reader :: reader where
  "std_reader =
     \<lparr>codec = (\<lambda>e bytes. if list_all is_ascii bytes then Some bytes else None),
      parse_csv = map_of known_texts,
      to_datetime = stamps_of\<rparr>"

text \<open>The frame that \<open>load_data\<close> makes of the first log.\<close>

definition day_df :: "df_row list" where
  "day_df =
     [\<lparr>df_timestamp = 1704067200000000000, df_idle_seconds = 0,
       df_app_name = Some ''Code.exe'', df_window_title = Some ''main.py'', active = True\<rparr>,
      \<lparr>df_timestamp = 1704153599000000000, df_idle_seconds = 0,
       df_app_name = Some ''Code.exe'', df_window_title = Some ''main.py'', active = True\<rparr>,
      \<lparr>df_timestamp = 1704153600000000000, df_idle_seconds = 0,
       df_app_name = Some ''Code.exe'', df_window_title = Some ''main.py'', active = True\<rparr>]"

text \<open>
  A stand-in for \<open>strptime\<close> that knows three dates: 2024-01-01, 2024-01-02 and the last
  day, 9999-12-31; it rejects every other string.
\<close>

definition strptime_known :: "string \<Rightarrow> date option" where
  "strptime_known s =
     (if s = ''2024-01-01'' then Some (Date 19723)
      else if s = ''2024-01-02'' then Some (Date 19724)
      else if s = ''9999-12-31'' then Some (Date 2932896)
      else None)"

section \<open>Notions for the statements\<close>

text \<open>The elements of a list in the order of their first occurrence.\<close>

fun first_seen :: "'a list \<Rightarrow> 'a list" where
  "first_seen [] = []"
| "first_seen (x # xs) = x # filter (\<lambda>y. y \<noteq> x) (first_seen xs)"

text \<open>The number of the records of an application.\<close>

definition records_of :: "log_record list \<Rightarrow> string \<Rightarrow> nat" where
  "records_of rows a = length (filter (\<lambda>r. app_name r = a) rows)"

text \<open>
  A sort of the groups by descending size that is stable: it orders by size and leaves
  groups of equal size in the order in which it got them.
\<close>

definition stable_descending ::
  "((string \<times> nat) list \<Rightarrow> (string \<times> nat) list) \<Rightarrow> (string \<times> nat) list \<Rightarrow> bool" where
  "stable_descending srt g =
     (sorted_wrt (\<lambda>x y. snd y \<le> snd x) (srt g) \<and>
      (\<forall>c. filter (\<lambda>x. snd x = c) (srt g) = filter (\<lambda>x. snd x = c) g))"

text \<open>Whether a report printed a summary.\<close>

fun is_summary :: "event \<Rightarrow> bool" where
  "is_summary (Prints_TodaySummary d m u t) = True"
| "is_summary e = False"

section \<open>Properties of the samplers\<close>

lemma log_activity_append:
  "log_activity csv ticks = csv @ map (\<lambda>(n, p). log_activity_row n p) ticks"
  by (induction csv ticks rule: log_activity.induct) simp_all

lemma log_activity_row_split:
  "log_activity_row n p =
     (if screen_locked p \<or> idle_time p \<ge> 300
      then \<lparr>timestamp = n, idle_seconds = idle_time p,
            app_name = ''Idle'', window_title = ''System Idle''\<rparr>
      else \<lparr>timestamp = n, idle_seconds = idle_time p,
            app_name = fst (foreground_app p),
            window_title = ascii_ignore (snd (foreground_app p))\<rparr>)"
proof -
  have "ascii_ignore ''System Idle'' = ''System Idle''"
    by (simp add: ascii_ignore_def is_ascii_def)
  then show ?thesis
    unfolding log_activity_row_def IDLE_THRESHOLD_def Let_def by auto
qed

lemma sampler_tick_rows:
  "csv_rows (sampler_tick s t) =
     (if should_write s (tick_row (now t) (probes t)) (clock t) \<and> write_ok t
      then csv_rows s @ [tick_row (now t) (probes t)] else csv_rows s)"
  by (simp add: sampler_tick_def Let_def)

text \<open>
  The write-on-change loop only appends, and every record it appends is the record
  built on one of its ticks.
\<close>

lemma sampler_loop_rows:
  "\<exists>rows. csv_rows (sampler_loop d st s ticks) = csv_rows s @ rows \<and>
     set rows \<subseteq> (\<lambda>t. tick_row (now t) (probes t)) ` set ticks"
proof (induction ticks arbitrary: s)
  case Nil
  show ?case by simp
next
  case (Cons t ticks)
  let ?row = "\<lambda>t. tick_row (now t) (probes t)"
  let ?s' = "sampler_tick s t"
  obtain us where us: "csv_rows ?s' = csv_rows s @ us" "set us \<subseteq> {?row t}"
  proof (cases "should_write s (?row t) (clock t) \<and> write_ok t")
    case True
    then have "csv_rows ?s' = csv_rows s @ [?row t]"
      by (simp add: sampler_tick_rows)
    then show ?thesis using that[of "[?row t]"] by simp
  next
    case False
    then have "csv_rows ?s' = csv_rows s @ []"
      by (simp add: sampler_tick_rows)
    then show ?thesis using that[of "[]"] by simp
  qed
  show ?case
  proof (cases "duration_reached d st (clock_end t)")
    case True
    then have "sampler_loop d st s (t # ticks) = ?s'"
      by (simp add: Let_def)
    with us show ?thesis
      by (intro exI[of _ us]) auto
  next
    case False
    then have step: "sampler_loop d st s (t # ticks) = sampler_loop d st ?s' ticks"
      by (simp add: Let_def)
    from Cons.IH[of ?s'] obtain ws where ws:
      "csv_rows (sampler_loop d st ?s' ticks) = csv_rows ?s' @ ws"
      "set ws \<subseteq> ?row ` set ticks"
      by blast
    show ?thesis
      unfolding step using ws us
      by (intro exI[of _ "us @ ws"]) auto
  qed
qed

text \<open>
  A tick that finds the application and the window of the last write, at a clock reading
  outside the first second of a 30-second window, writes nothing, however long ago the
  last write was.
\<close>

lemma sampler_tick_silent:
  assumes "app_name (tick_row (now t) (probes t)) = last_app s"
    and "window_title (tick_row (now t) (probes t)) = last_window s"
    and "1 \<le> py_fmod (clock t) 30"
  shows "sampler_tick s t = s"
  using assms by (simp add: sampler_tick_def should_write_def Let_def)

section \<open>Loading the log files of the scenarios\<close>

lemma ascii_files:
  "list_all is_ascii day_log" "list_all is_ascii idle_log" "list_all is_ascii foreign_csv"
  "\<not> list_all is_ascii cafe_log"
  by (simp_all add: day_log_def idle_log_def foreign_csv_def cafe_log_def file_of_def
      header_def is_ascii_def)

lemma texts_differ:
  "day_log \<noteq> idle_log" "day_log \<noteq> foreign_csv" "idle_log \<noteq> foreign_csv"
  "day_log \<noteq> decode_latin1 cafe_log" "idle_log \<noteq> decode_latin1 cafe_log"
  "foreign_csv \<noteq> decode_latin1 cafe_log" "[] \<noteq> decode_latin1 cafe_log"
  "[] \<noteq> day_log" "[] \<noteq> idle_log" "[] \<noteq> foreign_csv"
  by (simp_all add: day_log_def idle_log_def foreign_csv_def cafe_log_def file_of_def
      header_def decode_latin1_def latin1_char_def is_ascii_def)

lemma parse_known:
  "map_of known_texts day_log = Some (LogFrame day_rows)"
  "map_of known_texts idle_log = Some (LogFrame idle_rows)"
  "map_of known_texts foreign_csv = Some ForeignFrame"
  "map_of known_texts (decode_latin1 cafe_log) = Some (LogFrame cafe_rows)"
  "map_of known_texts [] = None"
  using texts_differ by (simp_all add: known_texts_def)

lemma read_known:
  "try_encodings std_reader encodings day_log = Some (Parsed (LogFrame day_rows))"
  "try_encodings std_reader encodings idle_log = Some (Parsed (LogFrame idle_rows))"
  "try_encodings std_reader encodings foreign_csv = Some (Parsed ForeignFrame)"
  "try_encodings std_reader encodings cafe_log = Some (Parsed (LogFrame cafe_rows))"
  "try_encodings std_reader encodings [] = Some OtherException"
  using ascii_files
  by (simp_all add: encodings_def read_csv_def decode_def std_reader_def parse_known)

lemma std_to_datetime: "to_datetime std_reader = stamps_of"
  by (simp add: std_reader_def)

lemma load_day_log: "load_data std_reader (Some day_log) = Loaded day_df"
  by (simp add: load_data_def read_known convert_frame_def std_to_datetime day_rows_def
      code_row_def stamps_def df_of_def day_df_def)

lemma load_idle_log:
  "load_data std_reader (Some idle_log) =
     Loaded [\<lparr>df_timestamp = 1704067200000000000, df_idle_seconds = 10,
              df_app_name = Some ''Idle'', df_window_title = Some ''System Idle'',
              active = True\<rparr>]"
  by (simp add: load_data_def read_known convert_frame_def std_to_datetime idle_rows_def
      stamps_def df_of_def)

lemma load_cafe_log:
  "load_data std_reader (Some cafe_log) =
     Loaded [\<lparr>df_timestamp = 1704067200000000000, df_idle_seconds = 0,
              df_app_name = Some ''Code.exe'',
              df_window_title = Some (''caf'' @ [CHR 0xC3, CHR 0xA9]), active = True\<rparr>]"
  by (simp add: load_data_def read_known convert_frame_def std_to_datetime cafe_rows_def
      code_row_def stamps_def df_of_def)

lemma load_other:
  "load_data std_reader (Some foreign_csv) = ErrorLoading"
  "load_data std_reader (Some []) = ErrorLoading"
  "load_data std_reader None = NoDataFound"
  by (simp_all add: load_data_def read_known)

lemma dates_of_stamps:
  "date_of 1704067200000000000 = 19723"
  "date_of 1704153599000000000 = 19723"
  "date_of 1704153600000000000 = 19724"
  by (simp_all add: date_of_def ns_per_day_def)

lemma days_known:
  "day_of (Date 19723) = 19723" "day_of (Date 19724) = 19724"
  "day_of (Date 2932896) = 2932896"
  by (simp_all add: Date_inverse min_day_def max_day_def)

lemma strptime_known_values:
  "strptime_known ''2024-01-02'' = Some (Date 19724)"
  "strptime_known ''2024-01-01'' = Some (Date 19723)"
  "strptime_known ''9999-12-31'' = Some (Date 2932896)"
  "strptime_known ''01/01/2024'' = None"
  by (simp_all add: strptime_known_def)

text \<open>Every row that \<open>load_data\<close> returns is marked active by its idle seconds alone.\<close>

lemma convert_frame_active:
  "convert_frame rd rows = Some df \<Longrightarrow> r \<in> set df \<Longrightarrow> active r = (df_idle_seconds r < 300)"
  by (auto simp: convert_frame_def df_of_def set_zip split: option.splits)

lemma load_data_active:
  "load_data rd file = Loaded df \<Longrightarrow> r \<in> set df \<Longrightarrow> active r = (df_idle_seconds r < 300)"
  by (auto simp: load_data_def dest: convert_frame_active
      split: option.splits read_result.splits csv_frame.splits)

text \<open>
  C1, at a tick the sampler of \<open>screentime_tracker.py\<close> takes while the screen saver runs
  ten seconds after the last input: the sampler writes the sentinel \<open>Idle\<close> with
  \<open>idle_seconds = 10\<close>, and \<open>load_data\<close>, reading the log of that tick, marks the record
  active, since it looks at \<open>idle_seconds < 300\<close> alone.
\<close>

theorem C1_locked_sentinel_record_is_active:
  "log_activity_row 0
     \<lparr>idle_time = 10, screen_locked = True, foreground_app = (''chrome.exe'', ''News'')\<rparr>
     = \<lparr>timestamp = 0, idle_seconds = 10, app_name = ''Idle'',
        window_title = ''System Idle''\<rparr> \<and>
   load_data std_reader (Some idle_log) =
     Loaded [\<lparr>df_timestamp = 1704067200000000000, df_idle_seconds = 10,
              df_app_name = Some ''Idle'', df_window_title = Some ''System Idle'',
              active = True\<rparr>]"
  by (simp add: log_activity_row_def IDLE_THRESHOLD_def ascii_ignore_def is_ascii_def
      load_idle_log)

text \<open>
  C2, as the claim states it, fails in both samplers: under lock the sampler of
  \<open>screentime_tracker.py\<close> writes \<open>Idle\<close> with the measured idle time, not
  \<open>Screen Locked\<close> with 0; and the write-on-change sampler has no \<open>Idle\<close> record, after
  400 idle seconds it still writes the foreground application.
\<close>

theorem C2_three_way_split_counterexample:
  "log_activity_row 0
     \<lparr>idle_time = 10, screen_locked = True, foreground_app = (''chrome.exe'', ''News'')\<rparr>
     \<noteq> spec_tick_row 0
     \<lparr>idle_time = 10, screen_locked = True, foreground_app = (''chrome.exe'', ''News'')\<rparr>
   \<and> tick_row 0
     \<lparr>idle_time = 400, screen_locked = False, foreground_app = (''chrome.exe'', ''News'')\<rparr>
     \<noteq> spec_tick_row 0
     \<lparr>idle_time = 400, screen_locked = False, foreground_app = (''chrome.exe'', ''News'')\<rparr>"
  by (simp add: log_activity_row_def tick_row_def spec_tick_row_def IDLE_THRESHOLD_def)

text \<open>
  C2, amended: each sampler has a two-way split. \<open>screentime_tracker.py\<close> appends one
  record per tick, which is \<open>(Idle, System Idle)\<close> with the measured idle seconds when the
  screen is locked or the idle time is 300 or more, and otherwise the foreground
  application with its window title cut down to ASCII. The write-on-change sampler
  appends on a tick at most one record, and only when the application or the window
  differs from the last write or the clock test holds, and the write succeeds; its loop
  only appends such records; the record is \<open>(Screen Locked, Screen Saver)\<close> with 0 idle
  seconds when locked, and otherwise the foreground application and window title with
  the measured idle seconds, whatever they are.
\<close>

theorem C2_two_way_splits:
  "log_activity csv ticks = csv @ map (\<lambda>(n, p). log_activity_row n p) ticks \<and>
   log_activity_row n p =
     (if screen_locked p \<or> idle_time p \<ge> 300
      then \<lparr>timestamp = n, idle_seconds = idle_time p,
            app_name = ''Idle'', window_title = ''System Idle''\<rparr>
      else \<lparr>timestamp = n, idle_seconds = idle_time p,
            app_name = fst (foreground_app p),
            window_title = ascii_ignore (snd (foreground_app p))\<rparr>) \<and>
   csv_rows (sampler_tick s t) =
     (if (app_name (tick_row (now t) (probes t)) \<noteq> last_app s \<or>
          window_title (tick_row (now t) (probes t)) \<noteq> last_window s \<or>
          py_fmod (clock t) 30 < 1) \<and> write_ok t
      then csv_rows s @
        [if screen_locked (probes t)
         then \<lparr>timestamp = now t, idle_seconds = 0,
               app_name = ''Screen Locked'', window_title = ''Screen Saver''\<rparr>
         else \<lparr>timestamp = now t, idle_seconds = idle_time (probes t),
               app_name = fst (foreground_app (probes t)),
               window_title = snd (foreground_app (probes t))\<rparr>]
      else csv_rows s) \<and>
   (\<exists>rows. csv_rows (sampler_loop d st s wticks) = csv_rows s @ rows \<and>
      set rows \<subseteq> (\<lambda>t. tick_row (now t) (probes t)) ` set wticks)"
proof (intro conjI)
  show "log_activity csv ticks = csv @ map (\<lambda>(n, p). log_activity_row n p) ticks"
    by (rule log_activity_append)
  show "log_activity_row n p =
     (if screen_locked p \<or> idle_time p \<ge> 300
      then \<lparr>timestamp = n, idle_seconds = idle_time p,
            app_name = ''Idle'', window_title = ''System Idle''\<rparr>
      else \<lparr>timestamp = n, idle_seconds = idle_time p,
            app_name = fst (foreground_app p),
            window_title = ascii_ignore (snd (foreground_app p))\<rparr>)"
    by (rule log_activity_row_split)
  show "csv_rows (sampler_tick s t) =
     (if (app_name (tick_row (now t) (probes t)) \<noteq> last_app s \<or>
          window_title (tick_row (now t) (probes t)) \<noteq> last_window s \<or>
          py_fmod (clock t) 30 < 1) \<and> write_ok t
      then csv_rows s @
        [if screen_locked (probes t)
         then \<lparr>timestamp = now t, idle_seconds = 0,
               app_name = ''Screen Locked'', window_title = ''Screen Saver''\<rparr>
         else \<lparr>timestamp = now t, idle_seconds = idle_time (probes t),
               app_name = fst (foreground_app (probes t)),
               window_title = snd (foreground_app (probes t))\<rparr>]
      else csv_rows s)"
    unfolding sampler_tick_rows should_write_def by (simp add: tick_row_def)
  show "\<exists>rows. csv_rows (sampler_loop d st s wticks) = csv_rows s @ rows \<and>
      set rows \<subseteq> (\<lambda>t. tick_row (now t) (probes t)) ` set wticks"
    by (rule sampler_loop_rows)
qed

theorem C2_two_way_splits_witness:
  "log_activity []
     [(0, \<lparr>idle_time = 10, screen_locked = True,
            foreground_app = (''chrome.exe'', ''News'')\<rparr>)] =
     [\<lparr>timestamp = 0, idle_seconds = 10, app_name = ''Idle'',
       window_title = ''System Idle''\<rparr>] \<and>
   csv_rows (sampler_tick (sampler_start []) locked_tick) =
     [\<lparr>timestamp = 0, idle_seconds = 0, app_name = ''Screen Locked'',
       window_title = ''Screen Saver''\<rparr>]"
  using C2_two_way_splits[of "[]"
      "[(0, \<lparr>idle_time = 10, screen_locked = True,
             foreground_app = (''chrome.exe'', ''News'')\<rparr>)]"
      0 "\<lparr>idle_time = 10, screen_locked = True,
          foreground_app = (''chrome.exe'', ''News'')\<rparr>"
      "sampler_start []" locked_tick]
  by (simp add: sampler_start_def locked_tick_def tick_row_def)

text \<open>
  C3, on ticks five seconds apart whose clock readings are 2, 7, ..., 37: the first tick
  writes (the application differs from the initial empty one), and none of the seven
  ticks after it does, although 35 seconds pass: the heartbeat test is
  \<open>time.time() % 30 < 1\<close>, which none of these readings meets. And on ticks at 25.5 and
  30.5 both write, five seconds apart with nothing changed, since 30.5 meets the test.
\<close>

theorem C3_no_heartbeat_for_35_seconds:
  "length (csv_rows (sampler_loop None 2 (sampler_start [])
     (map steady [2, 7, 12, 17, 22, 27, 32, 37]))) = 1 \<and>
   length (csv_rows (sampler_loop None (51 / 2) (sampler_start [])
     (map steady [51 / 2, 61 / 2]))) = 2"
  by code_simp

end
